theory Spec2Isabelle
  imports Complex_Main "HOL-Library.AList"
begin

section \<open>The capability gateway of .vas-ai-hospital\<close>

text \<open>
  A shallow embedding of \<^verbatim>\<open>.vas-ai-hospital/ai_api.py\<close> (the gateway: registry,
  encryption capability, audit logger, \<^verbatim>\<open>invoke_capability\<close>) and of
  \<^verbatim>\<open>negotiate_core\<close> from the older \<^verbatim>\<open>ai-api-service/ai_api.py\<close>.

  Conventions of the embedding.
  \<^item> A Python \<^verbatim>\<open>Dict[str, Any]\<close> is an association list over JSON values; \<^verbatim>\<open>d.get(k)\<close>
    is \<open>map_of d k\<close> and \<^verbatim>\<open>d[k] = v\<close> is \<open>AList.update k v d\<close> (an existing key keeps
    its place, a new key goes last, as in Python). The handlers modelled here exchange
    no floats, so the JSON type has none.
  \<^item> A Python \<^verbatim>\<open>str\<close> is a \<open>string\<close>, read as its UTF-8 bytes, so that
    \<^verbatim>\<open>str.encode()\<close> and \<^verbatim>\<open>bytes.decode()\<close> do not change the list.
  \<^item> A \<^verbatim>\<open>raise\<close> is the left injection of a sum; the exceptions are instances of
    \<^verbatim>\<open>Exception\<close> (what \<^verbatim>\<open>except Exception\<close> catches).
  \<^item> Everything outside the process is state passed explicitly: the wall clock that
    \<^verbatim>\<open>datetime.utcnow()\<close> reads (in microseconds), the Redis server, the flag whether the
    global \<^verbatim>\<open>audit_logger\<close> is set, and the records handed to \<^verbatim>\<open>logger\<close>.
\<close>

subsection \<open>JSON values and Python truthiness\<close>

datatype json =
    JNull
  | JBool bool
  | JInt int
  | JStr string
  | JList "json list"
  | JObj "(string \<times> json) list"

type_synonym dict = "(string \<times> json) list"

text \<open>\<^verbatim>\<open>bool(v)\<close>, as \<^verbatim>\<open>if not v\<close> and \<^verbatim>\<open>v or default\<close> use it.\<close>

fun truthy :: "json \<Rightarrow> bool" where
  "truthy JNull = False"
| "truthy (JBool b) = b"
| "truthy (JInt i) = (i \<noteq> 0)"
| "truthy (JStr s) = (s \<noteq> [])"
| "truthy (JList xs) = (xs \<noteq> [])"
| "truthy (JObj d) = (d \<noteq> [])"

text \<open>\<^verbatim>\<open>type(v).__name__\<close>, as Python's error messages print it.\<close>

fun type_name :: "json \<Rightarrow> string" where
  "type_name JNull = ''NoneType''"
| "type_name (JBool b) = ''bool''"
| "type_name (JInt i) = ''int''"
| "type_name (JStr s) = ''str''"
| "type_name (JList xs) = ''list''"
| "type_name (JObj d) = ''dict''"

text \<open>\<^verbatim>\<open>d.get(k, default)\<close>: the default only when the key is absent.\<close>

definition get_default :: "dict \<Rightarrow> string \<Rightarrow> json \<Rightarrow> json" where
  "get_default d k dflt = (case map_of d k of None \<Rightarrow> dflt | Some v \<Rightarrow> v)"

text \<open>A name between apostrophes, as the f-strings and messages of the source write it.\<close>

definition quoted :: "string \<Rightarrow> string" where
  "quoted s = CHR 0x27 # s @ [CHR 0x27]"

definition str_encode :: "string \<Rightarrow> string" where
  "str_encode s = s"

definition bytes_decode :: "string \<Rightarrow> string" where
  "bytes_decode b = b"

subsection \<open>Exceptions\<close>

text \<open>
  The exception classes the modelled code raises or meets, each with its message;
  \<open>OtherException\<close> stands for any other subclass of \<^verbatim>\<open>Exception\<close>.
  \<^verbatim>\<open>cryptography.fernet.InvalidToken\<close> is raised without arguments, so its \<^verbatim>\<open>str\<close> is empty.
\<close>

datatype exn =
    ValueError string
  | RuntimeError string
  | TypeError string
  | AttributeError string
  | ConnectionError string
  | CapabilityError string
  | InvalidToken
  | OtherException string

fun str_exn :: "exn \<Rightarrow> string" where
  "str_exn (ValueError m) = m"
| "str_exn (RuntimeError m) = m"
| "str_exn (TypeError m) = m"
| "str_exn (AttributeError m) = m"
| "str_exn (ConnectionError m) = m"
| "str_exn (CapabilityError m) = m"
| "str_exn InvalidToken = []"
| "str_exn (OtherException m) = m"

text \<open>\<^verbatim>\<open>fastapi.HTTPException(status_code, detail)\<close>, which only the dispatcher raises.\<close>

datatype http_exception = HTTPException nat string

subsection \<open>Data models\<close>

datatype ZFPPillar = ENCRYPT | OBSERVE | PRESERVE | GOVERN | EMPATHY

fun pillar_value :: "ZFPPillar \<Rightarrow> string" where
  "pillar_value ENCRYPT = ''encrypt''"
| "pillar_value OBSERVE = ''observe''"
| "pillar_value PRESERVE = ''preserve''"
| "pillar_value GOVERN = ''govern''"
| "pillar_value EMPATHY = ''empathy''"

record CapabilityRequest =
  capability :: string
  terms :: dict
  req_context :: dict
  req_pillar :: "ZFPPillar option"

text \<open>
  \<open>execution_time_ms\<close> is the float of the source taken as a real number;
  \<open>resp_timestamp\<close> is the instant whose ISO text the source stores.
\<close>

record CapabilityResponse =
  success :: bool
  result :: "dict option"
  error :: "string option"
  resp_pillar :: "ZFPPillar option"
  execution_time_ms :: real
  resp_timestamp :: int

subsection \<open>The world outside the process\<close>

record audit_event =
  ev_timestamp :: int
  event_type :: json
  actor :: json
  resource :: json
  action :: json
  details :: json

text \<open>
  The Redis server. \<open>audit_log\<close> is the list under the key \<^verbatim>\<open>audit:log\<close>; \<open>expiring\<close> holds
  what \<^verbatim>\<open>setex\<close> stored: the key \<^verbatim>\<open>audit:{event_type}:{timestamp}\<close> as the pair of its
  two parts, the time to live in seconds, and the event. Events are stored as they
  are, not as the text \<^verbatim>\<open>json.dumps\<close> makes of them.

  Whether a command reaches the server, and how long it takes, is decided by the
  environment. \<open>pending\<close> is that decision for the commands to come, first command
  first: \<open>Done d\<close> lets the command succeed after \<open>d\<close> microseconds, \<open>Fails d e\<close> makes the
  client raise \<open>e\<close> after \<open>d\<close> microseconds. When the list is empty the command
  succeeds at once.
\<close>

datatype command_outcome = Done nat | Fails nat exn

record redis =
  audit_log :: "audit_event list"
  expiring :: "((json \<times> int) \<times> nat \<times> audit_event) list"
  pending :: "command_outcome list"

text \<open>The calls on \<^verbatim>\<open>logger\<close>, each with the values its message interpolates.\<close>

datatype log_record =
    InfoRegistered string string
  | InfoAudit json json json json
  | ErrorExecutionFailed string string
  | WarningNotFound string
  | ExceptionInvocationFailed

record world =
  clock :: int
  redis_store :: redis
  audit_logger :: bool
  log_records :: "log_record list"

definition log_call :: "log_record \<Rightarrow> world \<Rightarrow> world" where
  "log_call l w = w\<lparr>log_records := log_records w @ [l]\<rparr>"

subsection \<open>Capability registry\<close>

text \<open>
  A handler is a callable of one dict. \<open>AsyncFunction\<close> is an \<^verbatim>\<open>async def\<close>: calling it
  makes a coroutine, and awaiting that runs the body. \<open>SyncFunction\<close> is a plain
  \<^verbatim>\<open>def\<close>: calling it runs the body. The body reads and changes the world and either
  raises or returns a dict.
\<close>

type_synonym handler_body = "dict \<Rightarrow> world \<Rightarrow> (exn + dict) \<times> world"

datatype handler = AsyncFunction (body_of: handler_body) | SyncFunction (body_of: handler_body)

record capability_metadata =
  meta_pillar :: string
  description :: string
  registered_at :: int

record CapabilityRegistry =
  handlers :: "(string \<times> handler) list"
  metadata :: "(string \<times> capability_metadata) list"

definition CapabilityRegistry_init :: CapabilityRegistry where
  "CapabilityRegistry_init = \<lparr>handlers = [], metadata = []\<rparr>"

definition register ::
  "string \<Rightarrow> handler \<Rightarrow> ZFPPillar \<Rightarrow> string \<Rightarrow> CapabilityRegistry \<Rightarrow> world
    \<Rightarrow> CapabilityRegistry \<times> world" where
  "register name h p descr reg w =
     (\<lparr>handlers = AList.update name h (handlers reg),
       metadata = AList.update name
         \<lparr>meta_pillar = pillar_value p, description = descr, registered_at = clock w\<rparr>
         (metadata reg)\<rparr>,
      log_call (InfoRegistered name (pillar_value p)) w)"

definition get_handler :: "CapabilityRegistry \<Rightarrow> string \<Rightarrow> handler option" where
  "get_handler reg name = map_of (handlers reg) name"

definition list_capabilities :: "CapabilityRegistry \<Rightarrow> (string \<times> capability_metadata) list" where
  "list_capabilities reg = metadata reg"

text \<open>The endpoint \<^verbatim>\<open>GET /capabilities\<close>: the metadata and \<^verbatim>\<open>len(registry.handlers)\<close>.\<close>

definition capabilities_endpoint ::
  "CapabilityRegistry \<Rightarrow> (string \<times> capability_metadata) list \<times> nat" where
  "capabilities_endpoint reg = (list_capabilities reg, length (handlers reg))"

text \<open>
  The registries a process can hold: the empty one of \<^verbatim>\<open>__init__\<close>, and whatever a
  \<^verbatim>\<open>register\<close> call makes of one, with any arguments and at any time.
\<close>

inductive registry_reachable :: "CapabilityRegistry \<Rightarrow> bool" where
  reachable_init: "registry_reachable CapabilityRegistry_init"
| reachable_register:
    "registry_reachable reg \<Longrightarrow> registry_reachable (fst (register name h p descr reg w))"

subsection \<open>Redis commands and the audit logger\<close>

text \<open>
  One command of the Redis client: the environment's next decision is taken from
  \<open>pending\<close>, the time it names passes, and the command either takes effect on the
  server or raises.
\<close>

definition redis_command :: "(redis \<Rightarrow> redis) \<Rightarrow> world \<Rightarrow> (exn + unit) \<times> world" where
  "redis_command effect w =
     (case pending (redis_store w) of
        [] \<Rightarrow> (Inr (), w\<lparr>redis_store := effect (redis_store w)\<rparr>)
      | Done d # rest \<Rightarrow>
          (Inr (), w\<lparr>clock := clock w + int d,
                     redis_store := effect ((redis_store w)\<lparr>pending := rest\<rparr>)\<rparr>)
      | Fails d e # rest \<Rightarrow>
          (Inl e, w\<lparr>clock := clock w + int d,
                    redis_store := (redis_store w)\<lparr>pending := rest\<rparr>\<rparr>))"

text \<open>\<^verbatim>\<open>redis.rpush("audit:log", value)\<close>.\<close>

definition rpush :: "audit_event \<Rightarrow> world \<Rightarrow> (exn + unit) \<times> world" where
  "rpush ev w = redis_command (\<lambda>r. r\<lparr>audit_log := audit_log r @ [ev]\<rparr>) w"

text \<open>\<^verbatim>\<open>redis.setex(key, seconds, value)\<close>.\<close>

definition setex :: "json \<times> int \<Rightarrow> nat \<Rightarrow> audit_event \<Rightarrow> world \<Rightarrow> (exn + unit) \<times> world" where
  "setex k seconds ev w =
     redis_command (\<lambda>r. r\<lparr>expiring := AList.update k (seconds, ev) (expiring r)\<rparr>) w"

text \<open>
  \<^verbatim>\<open>AuditLogger.log_event\<close>: build the event, push it on the list, store it under its own
  key for thirty days, write the log line. An exception of either command leaves the
  method there.
\<close>

definition log_event ::
  "json \<Rightarrow> json \<Rightarrow> json \<Rightarrow> json \<Rightarrow> json \<Rightarrow> world \<Rightarrow> (exn + unit) \<times> world" where
  "log_event etype act res actn dets w =
     (let event = \<lparr>ev_timestamp = clock w, event_type = etype, actor = act, resource = res,
                   action = actn, details = (if truthy dets then dets else JObj [])\<rparr>
      in case rpush event w of
           (Inl e, w1) \<Rightarrow> (Inl e, w1)
         | (Inr u, w1) \<Rightarrow>
             (case setex (etype, clock w1) (86400 * 30) event w1 of
                (Inl e, w2) \<Rightarrow> (Inl e, w2)
              | (Inr u', w2) \<Rightarrow> (Inr (), log_call (InfoAudit etype act res actn) w2)))"

text \<open>The capability \<^verbatim>\<open>audit:log\<close>.\<close>

definition handle_audit_log :: handler_body where
  "handle_audit_log trms w =
     (if \<not> audit_logger w then (Inl (RuntimeError ''Audit logger not initialized''), w)
      else case log_event (get_default trms ''event_type'' (JStr ''GENERIC''))
                          (get_default trms ''actor'' (JStr ''SYSTEM''))
                          (get_default trms ''resource'' (JStr ''UNKNOWN''))
                          (get_default trms ''action'' (JStr ''UNKNOWN''))
                          (get_default trms ''details'' (JObj [])) w of
             (Inl e, w1) \<Rightarrow> (Inl e, w1)
           | (Inr u, w1) \<Rightarrow> (Inr [(''logged'', JBool True)], w1))"

subsection \<open>Encryption service\<close>

text \<open>
  \<^verbatim>\<open>cryptography.fernet.Fernet\<close> is a library outside the repository, so the cipher
  object is a parameter: \<open>fernet_encrypt\<close> makes a token of some bytes (it reads the
  time and the random source, and takes time, hence the world), \<open>fernet_decrypt\<close>
  returns the bytes of a token or raises.
\<close>

record fernet =
  fernet_encrypt :: "world \<Rightarrow> string \<Rightarrow> string \<times> world"
  fernet_decrypt :: "string \<Rightarrow> exn + string"


text \<open>\<^verbatim>\<open>EncryptionService.encrypt\<close> and \<^verbatim>\<open>EncryptionService.decrypt\<close>.\<close>

definition encrypt :: "fernet \<Rightarrow> string \<Rightarrow> world \<Rightarrow> string \<times> world" where
  "encrypt c plaintext w =
     (case fernet_encrypt c w (str_encode plaintext) of (token, w1) \<Rightarrow> (bytes_decode token, w1))"

definition decrypt :: "fernet \<Rightarrow> string \<Rightarrow> exn + string" where
  "decrypt c ciphertext =
     (case fernet_decrypt c (str_encode ciphertext) of
        Inl e \<Rightarrow> Inl e
      | Inr b \<Rightarrow> Inr (bytes_decode b))"

text \<open>
  The capabilities \<^verbatim>\<open>data:encrypt\<close> and \<^verbatim>\<open>data:decrypt\<close>. A value that is truthy but not a
  string has no \<^verbatim>\<open>encode\<close> method.
\<close>

definition handle_data_encrypt :: "fernet \<Rightarrow> handler_body" where
  "handle_data_encrypt c trms w =
     (case map_of trms ''plaintext'' of
        None \<Rightarrow> (Inl (ValueError ''Missing 'plaintext' in terms''), w)
      | Some plaintext \<Rightarrow>
          if \<not> truthy plaintext then (Inl (ValueError ''Missing 'plaintext' in terms''), w)
          else (case plaintext of
                  JStr s \<Rightarrow>
                    (case encrypt c s w of
                       (ciphertext, w1) \<Rightarrow> (Inr [(''ciphertext'', JStr ciphertext)], w1))
                | _ \<Rightarrow>
                    (Inl (AttributeError (quoted (type_name plaintext)
                            @ '' object has no attribute '' @ quoted ''encode'')), w)))"

definition handle_data_decrypt :: "fernet \<Rightarrow> handler_body" where
  "handle_data_decrypt c trms w =
     (case map_of trms ''ciphertext'' of
        None \<Rightarrow> (Inl (ValueError ''Missing 'ciphertext' in terms''), w)
      | Some ciphertext \<Rightarrow>
          if \<not> truthy ciphertext then (Inl (ValueError ''Missing 'ciphertext' in terms''), w)
          else (case ciphertext of
                  JStr s \<Rightarrow>
                    (case decrypt c s of
                       Inl e \<Rightarrow> (Inl e, w)
                     | Inr plaintext \<Rightarrow> (Inr [(''plaintext'', JStr plaintext)], w))
                | _ \<Rightarrow>
                    (Inl (AttributeError (quoted (type_name ciphertext)
                            @ '' object has no attribute '' @ quoted ''encode'')), w)))"

subsection \<open>The dispatcher\<close>

text \<open>
  \<^verbatim>\<open>await handler(request.terms)\<close>. Calling an \<^verbatim>\<open>async def\<close> and awaiting the coroutine runs
  its body. Calling a plain function runs its body at the call; what it returns is a
  dict, which is no awaitable, so \<^verbatim>\<open>await\<close> raises \<^verbatim>\<open>TypeError\<close> (with the message of
  CPython up to 3.13).
\<close>

definition await_call :: "handler \<Rightarrow> dict \<Rightarrow> world \<Rightarrow> (exn + dict) \<times> world" where
  "await_call h trms w =
     (case h of
        AsyncFunction body \<Rightarrow> body trms w
      | SyncFunction body \<Rightarrow>
          (case body trms w of
             (Inl e, w1) \<Rightarrow> (Inl e, w1)
           | (Inr r, w1) \<Rightarrow>
               (Inl (TypeError ''object dict can't be used in 'await' expression''), w1)))"

text \<open>\<^verbatim>\<open>timedelta.total_seconds()\<close> of a difference of two clock readings.\<close>

definition total_seconds :: "int \<Rightarrow> real" where
  "total_seconds d = real_of_int d / 1000000"

text \<open>The \<^verbatim>\<open>except Exception as e\<close> branch of \<^verbatim>\<open>invoke_capability\<close>.\<close>

definition on_exception ::
  "CapabilityRequest \<Rightarrow> int \<Rightarrow> exn \<Rightarrow> world \<Rightarrow> (http_exception + CapabilityResponse) \<times> world" where
  "on_exception request start_time e w =
     (let w1 = log_call (ErrorExecutionFailed (capability request) (str_exn e)) w;
          execution_time = total_seconds (clock w1 - start_time) * 1000
      in (Inr \<lparr>success = False, result = None, error = Some (str_exn e),
               resp_pillar = req_pillar request, execution_time_ms = execution_time,
               resp_timestamp = clock w1\<rparr>, w1))"

text \<open>The audit event the dispatcher writes after a handler has returned.\<close>

definition audit_invocation :: "CapabilityRequest \<Rightarrow> world \<Rightarrow> (exn + unit) \<times> world" where
  "audit_invocation request w =
     (if audit_logger w
      then log_event (JStr ''CAPABILITY_INVOKE'')
                     (get_default (req_context request) ''user_id'' (JStr ''SYSTEM''))
                     (JStr (capability request))
                     (JStr ''EXECUTE'')
                     (JObj [(''terms'', JObj (terms request))]) w
      else (Inr (), w))"

text \<open>\<^verbatim>\<open>POST /invoke\<close>. The \<^verbatim>\<open>HTTPException\<close> is raised before the \<^verbatim>\<open>try\<close>, so it leaves the function.\<close>

definition invoke_capability ::
  "CapabilityRegistry \<Rightarrow> CapabilityRequest \<Rightarrow> world
    \<Rightarrow> (http_exception + CapabilityResponse) \<times> world" where
  "invoke_capability reg request w =
     (let start_time = clock w
      in case get_handler reg (capability request) of
           None \<Rightarrow>
             (Inl (HTTPException 404
                    (''Capability '' @ quoted (capability request) @ '' not found'')), w)
         | Some h \<Rightarrow>
             (case await_call h (terms request) w of
                (Inl e, w1) \<Rightarrow> on_exception request start_time e w1
              | (Inr res, w1) \<Rightarrow>
                  (case audit_invocation request w1 of
                     (Inl e, w2) \<Rightarrow> on_exception request start_time e w2
                   | (Inr u, w2) \<Rightarrow>
                       (Inr \<lparr>success = True, result = Some res, error = None,
                             resp_pillar = req_pillar request,
                             execution_time_ms = total_seconds (clock w2 - start_time) * 1000,
                             resp_timestamp = clock w2\<rparr>, w2))))"

subsection \<open>The older dispatcher \<^verbatim>\<open>negotiate_core\<close>\<close>

text \<open>
  \<^verbatim>\<open>negotiate_core\<close> of \<^verbatim>\<open>services_backup_20251020_220935/ai-api-service/ai_api.py\<close>, over
  a registry that is one dict from names to handlers. It asks
  \<^verbatim>\<open>asyncio.iscoroutinefunction(handler)\<close>: a coroutine function is awaited, a plain
  function is run in the executor and its result awaited.
\<close>

datatype negotiation = StatusOk string dict | StatusError string string

definition negotiate_core ::
  "(string \<times> handler) list \<Rightarrow> string \<Rightarrow> dict \<Rightarrow> world \<Rightarrow> (exn + negotiation) \<times> world" where
  "negotiate_core registry cap trms w =
     (case map_of registry cap of
        None \<Rightarrow>
          (Inl (CapabilityError (''Capability not found: '' @ cap)),
           log_call (WarningNotFound cap) w)
      | Some h \<Rightarrow>
          (case (case h of
                   AsyncFunction body \<Rightarrow> body trms w
                 | SyncFunction body \<Rightarrow> body trms w) of
             (Inr r, w1) \<Rightarrow> (Inr (StatusOk cap r), w1)
           | (Inl e, w1) \<Rightarrow>
               (Inr (StatusError cap (str_exn e)), log_call ExceptionInvocationFailed w1)))"

subsection \<open>The server's readiness and the start-up registrations\<close>

text \<open>Whether the server takes the next command (the environment does not fail it).\<close>

definition accepts_command :: "world \<Rightarrow> bool" where
  "accepts_command w =
     (case pending (redis_store w) of
        [] \<Rightarrow> True
      | Done d # rest \<Rightarrow> True
      | Fails d e # rest \<Rightarrow> False)"

text \<open>
  The registrations of \<^verbatim>\<open>startup_event\<close> for the handlers modelled here, in its order
  (the three clinical and analytics handlers compute with floats and are left out).
\<close>

definition startup_register ::
  "fernet \<Rightarrow> CapabilityRegistry \<Rightarrow> world \<Rightarrow> CapabilityRegistry \<times> world" where
  "startup_register c reg w =
     (case register ''data:encrypt'' (AsyncFunction (handle_data_encrypt c)) ENCRYPT
             ''Encrypt sensitive PHI data'' reg w of
        (r1, w1) \<Rightarrow>
          (case register ''data:decrypt'' (AsyncFunction (handle_data_decrypt c)) ENCRYPT
                  ''Decrypt sensitive PHI data'' r1 w1 of
             (r2, w2) \<Rightarrow>
               register ''audit:log'' (AsyncFunction handle_audit_log) PRESERVE
                 ''Log immutable audit events'' r2 w2))"

subsection \<open>Concrete inputs\<close>

text \<open>
  A stand-in for the cipher, to run the definitions on: a token is the bytes behind a
  fixed prefix, making one takes a millisecond, and anything without the prefix is
  refused.
\<close>

definition prefix_fernet :: fernet where
  "prefix_fernet =
     \<lparr>fernet_encrypt = (\<lambda>w p. (''gAAAAAB'' @ p, w\<lparr>clock := clock w + 1000\<rparr>)),
      fernet_decrypt = (\<lambda>t. if take 7 t = ''gAAAAAB'' then Inr (drop 7 t) else Inl InvalidToken)\<rparr>"

text \<open>A world at time 0 with the audit logger set and an empty Redis server.\<close>

definition quiet_world :: world where
  "quiet_world =
     \<lparr>clock = 0, redis_store = \<lparr>audit_log = [], expiring = [], pending = []\<rparr>,
      audit_logger = True, log_records = []\<rparr>"

text \<open>The same world with a server that takes 2.5 ms for each of the next two commands.\<close>

definition slow_world :: world where
  "slow_world = quiet_world\<lparr>redis_store := \<lparr>audit_log = [], expiring = [],
                                              pending = [Done 2500, Done 2500]\<rparr>\<rparr>"

text \<open>The same world with a server that refuses the next connection.\<close>

definition down_world :: world where
  "down_world = quiet_world\<lparr>redis_store := \<lparr>audit_log = [], expiring = [],
      pending = [Fails 0 (ConnectionError ''Connection refused'')]\<rparr>\<rparr>"

definition started_registry :: CapabilityRegistry where
  "started_registry = fst (startup_register prefix_fernet CapabilityRegistry_init quiet_world)"

text \<open>A registry that holds \<^verbatim>\<open>data:encrypt\<close> as a plain function.\<close>

definition sync_registry :: CapabilityRegistry where
  "sync_registry =
     fst (register ''data:encrypt'' (SyncFunction (handle_data_encrypt prefix_fernet)) ENCRYPT
            ''Encrypt sensitive PHI data'' CapabilityRegistry_init quiet_world)"

definition encrypt_request :: CapabilityRequest where
  "encrypt_request =
     \<lparr>capability = ''data:encrypt'', terms = [(''plaintext'', JStr ''PHI-123'')],
      req_context = [(''actor'', JStr ''alice'')], req_pillar = Some ENCRYPT\<rparr>"

text \<open>A request whose context names the user.\<close>

definition user_request :: CapabilityRequest where
  "user_request =
     \<lparr>capability = ''data:encrypt'', terms = [(''plaintext'', JStr ''PHI-123'')],
      req_context = [(''user_id'', JStr ''dr-lee'')], req_pillar = Some ENCRYPT\<rparr>"

definition empty_terms_request :: CapabilityRequest where
  "empty_terms_request =
     \<lparr>capability = ''data:encrypt'', terms = [], req_context = [], req_pillar = None\<rparr>"

definition unknown_request :: CapabilityRequest where
  "unknown_request =
     \<lparr>capability = ''nope:nope'', terms = [], req_context = [], req_pillar = None\<rparr>"

section \<open>Properties\<close>

subsection \<open>Auxiliary facts\<close>

lemmas run_defs =
  invoke_capability_def get_handler_def started_registry_def sync_registry_def
  startup_register_def register_def CapabilityRegistry_init_def await_call_def
  handle_data_encrypt_def handle_data_decrypt_def encrypt_def decrypt_def prefix_fernet_def
  str_encode_def bytes_decode_def audit_invocation_def log_event_def rpush_def setex_def
  redis_command_def log_call_def on_exception_def total_seconds_def get_default_def quoted_def
  accepts_command_def encrypt_request_def empty_terms_request_def unknown_request_def
  user_request_def quiet_world_def slow_world_def down_world_def Let_def

lemma on_exception_eq:
  "on_exception request st e w =
     (Inr \<lparr>success = False, result = None, error = Some (str_exn e),
            resp_pillar = req_pillar request,
            execution_time_ms = real_of_int (clock w - st) / 1000,
            resp_timestamp = clock w\<rparr>,
      log_call (ErrorExecutionFailed (capability request) (str_exn e)) w)"
  by (simp add: on_exception_def Let_def log_call_def total_seconds_def)

lemma log_call_frame [simp]:
  "clock (log_call l w) = clock w"
  "redis_store (log_call l w) = redis_store w"
  "audit_logger (log_call l w) = audit_logger w"
  by (simp_all add: log_call_def)

text \<open>A push the server takes appends the value and nothing else.\<close>

lemma rpush_accepted:
  assumes "accepts_command w"
  shows "\<exists>w1. rpush ev w = (Inr (), w1)
           \<and> audit_log (redis_store w1) = audit_log (redis_store w) @ [ev]"
proof (cases "pending (redis_store w)")
  case Nil
  then show ?thesis by (simp add: rpush_def redis_command_def)
next
  case (Cons o1 rest)
  with assms show ?thesis
    by (cases o1) (simp_all add: rpush_def redis_command_def accepts_command_def)
qed

text \<open>\<^verbatim>\<open>setex\<close> never touches the list, whether it succeeds or raises.\<close>

lemma setex_audit_log:
  "audit_log (redis_store (snd (setex k s ev w))) = audit_log (redis_store w)"
  by (simp add: setex_def redis_command_def split: list.split command_outcome.split)

lemma log_event_audit_log:
  assumes "accepts_command w"
  shows "audit_log (redis_store (snd (log_event et ac rs an dt w))) =
           audit_log (redis_store w) @
             [\<lparr>ev_timestamp = clock w, event_type = et, actor = ac, resource = rs, action = an,
               details = (if truthy dt then dt else JObj [])\<rparr>]"
proof -
  let ?ev = "\<lparr>ev_timestamp = clock w, event_type = et, actor = ac, resource = rs, action = an,
               details = (if truthy dt then dt else JObj [])\<rparr>"
  from rpush_accepted [OF assms, of ?ev] obtain w1
    where push: "rpush ?ev w = (Inr (), w1)"
      and log1: "audit_log (redis_store w1) = audit_log (redis_store w) @ [?ev]"
    by blast
  obtain out w2 where st: "setex (et, clock w1) (86400 * 30) ?ev w1 = (out, w2)"
    by (cases "setex (et, clock w1) (86400 * 30) ?ev w1")
  have log2: "audit_log (redis_store w2) = audit_log (redis_store w1)"
    using setex_audit_log [of "(et, clock w1)" "86400 * 30" ?ev w1] st by simp
  show ?thesis
    using push st log1 log2
    by (cases out) (simp_all add: log_event_def Let_def)
qed

text \<open>
  The success path of the dispatcher: after the handler has returned, with the audit
  logger set and the server taking the push, the list under \<^verbatim>\<open>audit:log\<close> grows by the
  one event of the dispatcher.
\<close>

lemma invoke_success_audit_log:
  assumes found: "get_handler reg (capability request) = Some h"
    and ran: "await_call h (terms request) w = (Inr res, w1)"
    and logger: "audit_logger w1"
    and up: "accepts_command w1"
  shows "audit_log (redis_store (snd (invoke_capability reg request w))) =
           audit_log (redis_store w1) @
             [\<lparr>ev_timestamp = clock w1, event_type = JStr ''CAPABILITY_INVOKE'',
               actor = get_default (req_context request) ''user_id'' (JStr ''SYSTEM''),
               resource = JStr (capability request), action = JStr ''EXECUTE'',
               details = JObj [(''terms'', JObj (terms request))]\<rparr>]"
proof -
  obtain out w2 where au: "audit_invocation request w1 = (out, w2)"
    by (cases "audit_invocation request w1")
  have "audit_log (redis_store w2) =
           audit_log (redis_store w1) @
             [\<lparr>ev_timestamp = clock w1, event_type = JStr ''CAPABILITY_INVOKE'',
               actor = get_default (req_context request) ''user_id'' (JStr ''SYSTEM''),
               resource = JStr (capability request), action = JStr ''EXECUTE'',
               details = JObj [(''terms'', JObj (terms request))]\<rparr>]"
    using log_event_audit_log [OF up, of "JStr ''CAPABILITY_INVOKE''"
        "get_default (req_context request) ''user_id'' (JStr ''SYSTEM'')"
        "JStr (capability request)" "JStr ''EXECUTE''"
        "JObj [(''terms'', JObj (terms request))]"] au logger
    by (simp add: audit_invocation_def)
  then show ?thesis
    using found ran au
    by (cases out) (simp_all add: invoke_capability_def Let_def on_exception_eq)
qed

text \<open>The failure path: an exception of the awaited call goes straight to the handler of exceptions.\<close>

lemma invoke_failure:
  assumes found: "get_handler reg (capability request) = Some h"
    and ran: "await_call h (terms request) w = (Inl e, w1)"
  shows "invoke_capability reg request w =
     (Inr \<lparr>success = False, result = None, error = Some (str_exn e),
            resp_pillar = req_pillar request,
            execution_time_ms = real_of_int (clock w1 - clock w) / 1000,
            resp_timestamp = clock w1\<rparr>,
      log_call (ErrorExecutionFailed (capability request) (str_exn e)) w1)"
  using found ran by (simp add: invoke_capability_def Let_def on_exception_eq)

text \<open>The success path: the handler returned and the audit write, if any, raised nothing.\<close>

lemma invoke_success:
  assumes found: "get_handler reg (capability request) = Some h"
    and ran: "await_call h (terms request) w = (Inr res, w1)"
    and audit: "audit_invocation request w1 = (Inr u, w2)"
  shows "invoke_capability reg request w =
     (Inr \<lparr>success = True, result = Some res, error = None,
            resp_pillar = req_pillar request,
            execution_time_ms = real_of_int (clock w2 - clock w) / 1000,
            resp_timestamp = clock w2\<rparr>, w2)"
  using found ran audit by (simp add: invoke_capability_def Let_def total_seconds_def)

subsection \<open>Audit events of an invocation\<close>

text \<open>
  Claim C1, as the code has it. Let a registered capability be invoked, let the awaited
  call end in the world \<open>w1\<close>, with the audit logger set and the server taking the next
  command. Then the dispatcher adds to the list under \<^verbatim>\<open>audit:log\<close>, behind whatever
  the handler wrote there,
  \<^item> exactly one event when the handler returned: its type is \<^verbatim>\<open>CAPABILITY_INVOKE\<close>, its
    resource the capability name, its action \<^verbatim>\<open>EXECUTE\<close>, its details the original
    terms under the key \<^verbatim>\<open>terms\<close>;
  \<^item> no event when the handler raised.
\<close>

theorem invoke_audit_events:
  assumes found: "get_handler reg (capability request) = Some h"
    and ran: "await_call h (terms request) w = (outcome, w1)"
    and logger: "audit_logger w1"
    and up: "accepts_command w1"
  shows "\<exists>evs. audit_log (redis_store (snd (invoke_capability reg request w))) =
                 audit_log (redis_store w1) @ evs
           \<and> (case outcome of
                 Inl e \<Rightarrow> evs = []
               | Inr res \<Rightarrow>
                   length evs = 1
                 \<and> event_type (hd evs) = JStr ''CAPABILITY_INVOKE''
                 \<and> resource (hd evs) = JStr (capability request)
                 \<and> action (hd evs) = JStr ''EXECUTE''
                 \<and> details (hd evs) = JObj [(''terms'', JObj (terms request))])"
proof (cases outcome)
  case (Inl e)
  with found ran show ?thesis
    by (simp add: invoke_failure)
next
  case (Inr res)
  with ran have "await_call h (terms request) w = (Inr res, w1)"
    by simp
  from invoke_success_audit_log [OF found this logger up] Inr show ?thesis
    by simp
qed

text \<open>
  The theorem at work: \<^verbatim>\<open>data:encrypt\<close> of \<^verbatim>\<open>PHI-123\<close> against a slow server leaves one
  event in the list.
\<close>

theorem invoke_audit_events_witness:
  "get_handler started_registry (capability encrypt_request) =
       Some (AsyncFunction (handle_data_encrypt prefix_fernet))
   \<and> await_call (AsyncFunction (handle_data_encrypt prefix_fernet)) (terms encrypt_request)
         slow_world
       = (Inr [(''ciphertext'', JStr ''gAAAAABPHI-123'')], slow_world\<lparr>clock := 1000\<rparr>)
   \<and> audit_logger (slow_world\<lparr>clock := 1000\<rparr>)
   \<and> accepts_command (slow_world\<lparr>clock := 1000\<rparr>)
   \<and> (\<exists>evs. audit_log (redis_store (snd (invoke_capability started_registry encrypt_request
                  slow_world))) = audit_log (redis_store (slow_world\<lparr>clock := 1000\<rparr>)) @ evs
           \<and> length evs = 1
           \<and> event_type (hd evs) = JStr ''CAPABILITY_INVOKE''
           \<and> resource (hd evs) = JStr ''data:encrypt''
           \<and> action (hd evs) = JStr ''EXECUTE''
           \<and> details (hd evs) = JObj [(''terms'', JObj [(''plaintext'', JStr ''PHI-123'')])])"
proof -
  have h1: "get_handler started_registry (capability encrypt_request) =
       Some (AsyncFunction (handle_data_encrypt prefix_fernet))"
    by (simp add: run_defs)
  have h2: "await_call (AsyncFunction (handle_data_encrypt prefix_fernet)) (terms encrypt_request)
         slow_world
       = (Inr [(''ciphertext'', JStr ''gAAAAABPHI-123'')], slow_world\<lparr>clock := 1000\<rparr>)"
    by (simp add: run_defs)
  have h3: "audit_logger (slow_world\<lparr>clock := 1000\<rparr>)"
    by (simp add: run_defs)
  have h4: "accepts_command (slow_world\<lparr>clock := 1000\<rparr>)"
    by (simp add: run_defs)
  have req: "capability encrypt_request = ''data:encrypt''"
    "terms encrypt_request = [(''plaintext'', JStr ''PHI-123'')]"
    by (simp_all add: encrypt_request_def)
  from invoke_audit_events [OF h1 h2 h3 h4] h1 h2 h3 h4 show ?thesis
    by (simp add: req)
qed

text \<open>
  Claim C1 as it is written fails where the handler raises. \<^verbatim>\<open>data:encrypt\<close> is
  registered and the audit logger is set; invoked without a plaintext, the handler
  raises \<^verbatim>\<open>ValueError\<close>, the envelope reports the failure, and the list under
  \<^verbatim>\<open>audit:log\<close> stays empty.
\<close>

theorem failed_handler_leaves_no_audit_event:
  "audit_logger quiet_world
   \<and> get_handler started_registry ''data:encrypt''
       = Some (AsyncFunction (handle_data_encrypt prefix_fernet))
   \<and> fst (invoke_capability started_registry empty_terms_request quiet_world) =
       Inr \<lparr>success = False, result = None, error = Some ''Missing 'plaintext' in terms'',
            resp_pillar = None, execution_time_ms = 0, resp_timestamp = 0\<rparr>
   \<and> audit_log (redis_store (snd (invoke_capability started_registry empty_terms_request
         quiet_world))) = []"
  by (simp add: run_defs)

subsection \<open>Unregistered capabilities\<close>

text \<open>
  Claim C2, as the code has it. Invoking a name that is not registered raises
  \<^verbatim>\<open>HTTPException\<close> with status 404 and a detail that holds the name, out of
  \<^verbatim>\<open>invoke_capability\<close>; no envelope is returned, and the world is left as it was: no
  audit event, no log record.
\<close>

theorem unregistered_capability_raises:
  assumes "get_handler reg (capability request) = None"
  shows "invoke_capability reg request w =
           (Inl (HTTPException 404
                  (''Capability '' @ quoted (capability request) @ '' not found'')), w)"
  using assms by (simp add: invoke_capability_def)

theorem unregistered_capability_raises_witness:
  "get_handler started_registry (capability unknown_request) = None
   \<and> invoke_capability started_registry unknown_request down_world =
       (Inl (HTTPException 404 ''Capability 'nope:nope' not found''), down_world)"
proof -
  have h: "get_handler started_registry (capability unknown_request) = None"
    by (simp add: run_defs)
  from unregistered_capability_raises [OF h, of down_world] h show ?thesis
    by (simp add: unknown_request_def quoted_def)
qed

text \<open>
  Claim C2 as it is written fails on \<^verbatim>\<open>nope:nope\<close>: with the audit logger set, the
  outcome is the raised \<^verbatim>\<open>HTTPException\<close>, not an envelope with \<^verbatim>\<open>success = False\<close>, and
  no event with the action \<^verbatim>\<open>EXECUTE_DENIED\<close> (nor any other) reaches the list.
\<close>

theorem unregistered_capability_not_enveloped:
  "audit_logger quiet_world
   \<and> invoke_capability started_registry unknown_request quiet_world =
       (Inl (HTTPException 404 ''Capability 'nope:nope' not found''), quiet_world)
   \<and> audit_log (redis_store quiet_world) = []"
  by (simp add: run_defs)

subsection \<open>A failing audit write\<close>

text \<open>
  Claim C3, as the code has it. The audit write stands inside the same \<^verbatim>\<open>try\<close> as the
  handler. When the handler has returned and the audit write raises \<open>e\<close>, the exception
  is caught and logged, and it does change the outcome: the envelope has
  \<^verbatim>\<open>success = False\<close>, no result, and the text of \<open>e\<close> as its error. The output of the
  handler is dropped.
\<close>

theorem audit_failure_fails_invocation:
  assumes found: "get_handler reg (capability request) = Some h"
    and ran: "await_call h (terms request) w = (Inr res, w1)"
    and audit: "audit_invocation request w1 = (Inl e, w2)"
  shows "invoke_capability reg request w =
     (Inr \<lparr>success = False, result = None, error = Some (str_exn e),
            resp_pillar = req_pillar request,
            execution_time_ms = real_of_int (clock w2 - clock w) / 1000,
            resp_timestamp = clock w2\<rparr>,
      log_call (ErrorExecutionFailed (capability request) (str_exn e)) w2)"
  using found ran audit by (simp add: invoke_capability_def Let_def on_exception_eq)

theorem audit_failure_fails_invocation_witness:
  "get_handler started_registry (capability user_request) =
       Some (AsyncFunction (handle_data_encrypt prefix_fernet))
   \<and> await_call (AsyncFunction (handle_data_encrypt prefix_fernet)) (terms user_request)
         down_world
       = (Inr [(''ciphertext'', JStr ''gAAAAABPHI-123'')], down_world\<lparr>clock := 1000\<rparr>)
   \<and> audit_invocation user_request (down_world\<lparr>clock := 1000\<rparr>)
       = (Inl (ConnectionError ''Connection refused''), quiet_world\<lparr>clock := 1000\<rparr>)
   \<and> invoke_capability started_registry user_request down_world =
       (Inr \<lparr>success = False, result = None, error = Some ''Connection refused'',
             resp_pillar = Some ENCRYPT, execution_time_ms = 1, resp_timestamp = 1000\<rparr>,
        quiet_world\<lparr>clock := 1000,
          log_records := [ErrorExecutionFailed ''data:encrypt'' ''Connection refused'']\<rparr>)"
proof -
  have h1: "get_handler started_registry (capability user_request) =
       Some (AsyncFunction (handle_data_encrypt prefix_fernet))"
    by (simp add: run_defs)
  have h2: "await_call (AsyncFunction (handle_data_encrypt prefix_fernet)) (terms user_request)
         down_world
       = (Inr [(''ciphertext'', JStr ''gAAAAABPHI-123'')], down_world\<lparr>clock := 1000\<rparr>)"
    by (simp add: run_defs)
  have h3: "audit_invocation user_request (down_world\<lparr>clock := 1000\<rparr>)
       = (Inl (ConnectionError ''Connection refused''), quiet_world\<lparr>clock := 1000\<rparr>)"
    by (simp add: run_defs)
  from audit_failure_fails_invocation [OF h1 h2 h3] h1 h2 h3 show ?thesis
    by (simp add: user_request_def down_world_def quiet_world_def log_call_def)
qed

text \<open>
  Claim C3 as it is written fails when the server refuses the connection: the handler
  of \<^verbatim>\<open>data:encrypt\<close> returns a ciphertext, and the envelope still says
  \<^verbatim>\<open>success = False\<close>, with the error of the audit write.
\<close>

theorem audit_failure_flips_success:
  "fst (await_call (AsyncFunction (handle_data_encrypt prefix_fernet)) (terms encrypt_request)
         down_world) = Inr [(''ciphertext'', JStr ''gAAAAABPHI-123'')]
   \<and> fst (invoke_capability started_registry encrypt_request down_world) =
       Inr \<lparr>success = False, result = None, error = Some ''Connection refused'',
            resp_pillar = Some ENCRYPT, execution_time_ms = 1, resp_timestamp = 1000\<rparr>"
  by (simp add: run_defs)

subsection \<open>What \<^verbatim>\<open>execution_time_ms\<close> measures\<close>

text \<open>
  Claim C4, as the code has it. \<^verbatim>\<open>start_time\<close> is read on entry, before the lookup in
  the registry, and the end is read when the envelope is built: after the audit write
  on the success path, in the handler of exceptions otherwise. For a registered
  capability an envelope is always returned, and its \<^verbatim>\<open>execution_time_ms\<close> is the time
  that passed between entering \<^verbatim>\<open>invoke_capability\<close> and returning from it.
\<close>

theorem execution_time_spans_invocation:
  assumes found: "get_handler reg (capability request) = Some h"
  shows "\<exists>r w'. invoke_capability reg request w = (Inr r, w')
           \<and> execution_time_ms r = real_of_int (clock w' - clock w) / 1000"
proof -
  obtain outcome w1 where ran: "await_call h (terms request) w = (outcome, w1)"
    by (cases "await_call h (terms request) w")
  show ?thesis
  proof (cases outcome)
    case (Inl e)
    with found ran show ?thesis
      by (simp add: invoke_failure)
  next
    case (Inr res)
    obtain out w2 where au: "audit_invocation request w1 = (out, w2)"
      by (cases "audit_invocation request w1")
    with found ran Inr show ?thesis
      by (cases out)
         (simp_all add: invoke_capability_def Let_def on_exception_eq total_seconds_def)
  qed
qed

theorem execution_time_spans_invocation_witness:
  "get_handler started_registry (capability user_request) =
       Some (AsyncFunction (handle_data_encrypt prefix_fernet))
   \<and> (\<exists>r w'. invoke_capability started_registry user_request slow_world = (Inr r, w')
          \<and> clock w' = 6000 \<and> clock slow_world = 0
          \<and> execution_time_ms r = real_of_int (clock w' - clock slow_world) / 1000)"
proof -
  have h1: "get_handler started_registry (capability user_request) =
       Some (AsyncFunction (handle_data_encrypt prefix_fernet))"
    by (simp add: run_defs)
  have c: "clock (snd (invoke_capability started_registry user_request slow_world)) = 6000"
     "clock slow_world = 0"
    by (simp_all add: run_defs)
  from execution_time_spans_invocation [OF h1, of slow_world] h1 c show ?thesis
    by auto
qed

text \<open>
  Claim C4 as it is written fails against a slow server: the handler takes 1 ms, each
  of the two Redis commands of the audit write takes 2.5 ms, and the envelope reports
  6 ms.
\<close>

theorem execution_time_includes_audit_write:
  "clock (snd (await_call (AsyncFunction (handle_data_encrypt prefix_fernet))
                 (terms encrypt_request) slow_world)) - clock slow_world = 1000
   \<and> fst (invoke_capability started_registry encrypt_request slow_world) =
       Inr \<lparr>success = True, result = Some [(''ciphertext'', JStr ''gAAAAABPHI-123'')],
            error = None, resp_pillar = Some ENCRYPT, execution_time_ms = 6,
            resp_timestamp = 6000\<rparr>"
  by (simp add: run_defs)

subsection \<open>Containment of handler failures\<close>



subsection \<open>Round trip of encryption\<close>





subsection \<open>Plain functions as handlers\<close>

text \<open>\<^verbatim>\<open>negotiate_core\<close> runs the body of either kind of handler and wraps what it returns.\<close>

lemma negotiate_core_runs_body:
  assumes "map_of registry cap = Some h"
    and "body_of h trms w = (Inr r, w1)"
  shows "negotiate_core registry cap trms w = (Inr (StatusOk cap r), w1)"
  using assms by (cases h) (simp_all add: negotiate_core_def)

text \<open>
  \<^verbatim>\<open>invoke_capability\<close> awaits what the call returned. A plain function has run by
  then, and its dict cannot be awaited: the invocation is reported as failed.
\<close>

lemma invoke_sync_handler:
  assumes "get_handler reg (capability request) = Some (SyncFunction b)"
    and "b (terms request) w = (Inr r, w1)"
  shows "\<exists>resp w'. invoke_capability reg request w = (Inr resp, w') \<and> \<not> success resp
           \<and> error resp = Some ''object dict can't be used in 'await' expression''"
proof -
  from assms(2) have "await_call (SyncFunction b) (terms request) w =
      (Inl (TypeError ''object dict can't be used in 'await' expression''), w1)"
    by (simp add: await_call_def)
  from invoke_failure [OF assms(1) this] show ?thesis
    by simp
qed

text \<open>
  Claim C8 at \<^verbatim>\<open>data:encrypt\<close> registered as a plain function. The handler returns the
  ciphertext, and \<^verbatim>\<open>invoke_capability\<close> answers \<^verbatim>\<open>success = False\<close> with a \<^verbatim>\<open>TypeError\<close>
  message, where the same body registered as \<^verbatim>\<open>async def\<close> gives \<^verbatim>\<open>success = True\<close> with
  the ciphertext, and where \<^verbatim>\<open>negotiate_core\<close> returns the ciphertext for the plain
  function.
\<close>

theorem sync_handler_result_is_lost:
  "get_handler sync_registry (capability encrypt_request)
     = Some (SyncFunction (handle_data_encrypt prefix_fernet))
   \<and> fst (handle_data_encrypt prefix_fernet (terms encrypt_request) quiet_world)
       = Inr [(''ciphertext'', JStr ''gAAAAABPHI-123'')]
   \<and> fst (invoke_capability sync_registry encrypt_request quiet_world) =
       Inr \<lparr>success = False, result = None,
            error = Some ''object dict can't be used in 'await' expression'',
            resp_pillar = Some ENCRYPT, execution_time_ms = 1, resp_timestamp = 1000\<rparr>
   \<and> fst (invoke_capability started_registry encrypt_request quiet_world) =
       Inr \<lparr>success = True, result = Some [(''ciphertext'', JStr ''gAAAAABPHI-123'')],
            error = None, resp_pillar = Some ENCRYPT, execution_time_ms = 1,
            resp_timestamp = 1000\<rparr>
   \<and> fst (negotiate_core (handlers sync_registry) ''data:encrypt'' (terms encrypt_request)
            quiet_world)
       = Inr (StatusOk ''data:encrypt'' [(''ciphertext'', JStr ''gAAAAABPHI-123'')])"
  by (simp add: run_defs negotiate_core_def)

subsection \<open>The actor of the audit event\<close>

text \<open>
  Claim C9, as the code has it. On the success path (handler returned, audit logger
  set, server taking the push) the actor of the event the dispatcher appends is the
  value under the key \<^verbatim>\<open>user_id\<close> of the request's context when that key is present,
  and \<^verbatim>\<open>SYSTEM\<close> when it is absent.
\<close>

theorem audit_actor_is_user_id:
  assumes found: "get_handler reg (capability request) = Some h"
    and ran: "await_call h (terms request) w = (Inr res, w1)"
    and logger: "audit_logger w1"
    and up: "accepts_command w1"
  shows "actor (last (audit_log (redis_store (snd (invoke_capability reg request w))))) =
           (case map_of (req_context request) ''user_id'' of
              None \<Rightarrow> JStr ''SYSTEM''
            | Some v \<Rightarrow> v)"
  using invoke_success_audit_log [OF found ran logger up]
  by (simp add: get_default_def)

theorem audit_actor_is_user_id_witness:
  "get_handler started_registry (capability user_request) =
       Some (AsyncFunction (handle_data_encrypt prefix_fernet))
   \<and> await_call (AsyncFunction (handle_data_encrypt prefix_fernet)) (terms user_request)
         quiet_world
       = (Inr [(''ciphertext'', JStr ''gAAAAABPHI-123'')], quiet_world\<lparr>clock := 1000\<rparr>)
   \<and> audit_logger (quiet_world\<lparr>clock := 1000\<rparr>)
   \<and> accepts_command (quiet_world\<lparr>clock := 1000\<rparr>)
   \<and> map_of (req_context user_request) ''user_id'' = Some (JStr ''dr-lee'')
   \<and> actor (last (audit_log (redis_store (snd (invoke_capability started_registry
         user_request quiet_world))))) = JStr ''dr-lee''"
proof -
  have h1: "get_handler started_registry (capability user_request) =
       Some (AsyncFunction (handle_data_encrypt prefix_fernet))"
    by (simp add: run_defs)
  have h2: "await_call (AsyncFunction (handle_data_encrypt prefix_fernet)) (terms user_request)
         quiet_world
       = (Inr [(''ciphertext'', JStr ''gAAAAABPHI-123'')], quiet_world\<lparr>clock := 1000\<rparr>)"
    by (simp add: run_defs)
  have h3: "audit_logger (quiet_world\<lparr>clock := 1000\<rparr>)"
    by (simp add: run_defs)
  have h4: "accepts_command (quiet_world\<lparr>clock := 1000\<rparr>)"
    by (simp add: run_defs)
  have h5: "map_of (req_context user_request) ''user_id'' = Some (JStr ''dr-lee'')"
    by (simp add: user_request_def)
  from audit_actor_is_user_id [OF h1 h2 h3 h4] h1 h2 h3 h4 h5 show ?thesis
    by simp
qed

text \<open>
  Claim C9 as it is written fails for a context that names its actor under the key
  \<^verbatim>\<open>actor\<close>: the event is written for \<^verbatim>\<open>SYSTEM\<close>.
\<close>

theorem context_actor_is_ignored:
  "map_of (req_context encrypt_request) ''actor'' = Some (JStr ''alice'')
   \<and> map actor (audit_log (redis_store (snd (invoke_capability started_registry encrypt_request
         quiet_world)))) = [JStr ''SYSTEM'']"
  by (simp add: run_defs)

subsection \<open>The two maps of the registry\<close>

lemma reachable_keys:
  assumes "registry_reachable reg"
  shows "map fst (handlers reg) = map fst (metadata reg) \<and> distinct (map fst (handlers reg))"
  using assms
proof (induction rule: registry_reachable.induct)
  case reachable_init
  show ?case by (simp add: CapabilityRegistry_init_def)
next
  case (reachable_register reg name h p descr w)
  then have keys: "map fst (handlers reg) = map fst (metadata reg)"
    and dist: "distinct (map fst (handlers reg))"
    by blast+
  have "map fst (handlers (fst (register name h p descr reg w))) =
        map fst (metadata (fst (register name h p descr reg w)))"
    by (simp add: register_def update_keys keys)
  moreover have "distinct (map fst (handlers (fst (register name h p descr reg w))))"
    using dist by (simp add: register_def distinct_update)
  ultimately show ?case
    by blast
qed

text \<open>
  Claim C10. In every registry that \<^verbatim>\<open>register\<close> calls can build, the handlers and the
  metadata have the same keys, in the same order and without repetition. So
  \<^verbatim>\<open>get_handler\<close> finds a handler for a name exactly when the name is a key of
  \<^verbatim>\<open>list_capabilities\<close>, and the count the endpoint reports, \<^verbatim>\<open>len(registry.handlers)\<close>, is
  the number of metadata entries.
\<close>

theorem registry_maps_share_keys:
  assumes "registry_reachable reg"
  shows "map fst (handlers reg) = map fst (metadata reg)
       \<and> distinct (map fst (handlers reg))
       \<and> (get_handler reg name \<noteq> None) = (name \<in> fst ` set (list_capabilities reg))
       \<and> snd (capabilities_endpoint reg) = length (list_capabilities reg)"
proof -
  from reachable_keys [OF assms]
  have keys: "map fst (handlers reg) = map fst (metadata reg)"
    and dist: "distinct (map fst (handlers reg))"
    by blast+
  have "(get_handler reg name \<noteq> None) = (name \<in> set (map fst (handlers reg)))"
    by (simp add: get_handler_def map_of_eq_None_iff)
  also have "\<dots> = (name \<in> fst ` set (list_capabilities reg))"
    by (simp add: keys list_capabilities_def)
  finally have lookup:
    "(get_handler reg name \<noteq> None) = (name \<in> fst ` set (list_capabilities reg))" .
  have "length (handlers reg) = length (map fst (handlers reg))"
    by simp
  also have "\<dots> = length (metadata reg)"
    by (simp add: keys)
  finally have "snd (capabilities_endpoint reg) = length (list_capabilities reg)"
    by (simp add: capabilities_endpoint_def list_capabilities_def)
  with keys dist lookup show ?thesis
    by simp
qed

lemma startup_register_reachable:
  assumes "registry_reachable reg"
  shows "registry_reachable (fst (startup_register c reg w))"
proof -
  have step: "registry_reachable (fst (register n h p d r v))" if "registry_reachable r"
    for n h p d r v
    using that by (rule reachable_register)
  obtain r1 w1 where s1: "register ''data:encrypt'' (AsyncFunction (handle_data_encrypt c))
      ENCRYPT ''Encrypt sensitive PHI data'' reg w = (r1, w1)"
    by (cases "register ''data:encrypt'' (AsyncFunction (handle_data_encrypt c))
      ENCRYPT ''Encrypt sensitive PHI data'' reg w")
  obtain r2 w2 where s2: "register ''data:decrypt'' (AsyncFunction (handle_data_decrypt c))
      ENCRYPT ''Decrypt sensitive PHI data'' r1 w1 = (r2, w2)"
    by (cases "register ''data:decrypt'' (AsyncFunction (handle_data_decrypt c))
      ENCRYPT ''Decrypt sensitive PHI data'' r1 w1")
  from step [OF assms, of "''data:encrypt''" "AsyncFunction (handle_data_encrypt c)" ENCRYPT
      "''Encrypt sensitive PHI data''" w] s1
  have "registry_reachable r1" by simp
  from step [OF this, of "''data:decrypt''" "AsyncFunction (handle_data_decrypt c)" ENCRYPT
      "''Decrypt sensitive PHI data''" w1] s2
  have "registry_reachable r2" by simp
  from step [OF this, of "''audit:log''" "AsyncFunction handle_audit_log" PRESERVE
      "''Log immutable audit events''" w2] s1 s2
  show ?thesis
    by (simp add: startup_register_def)
qed

theorem registry_maps_share_keys_witness:
  "registry_reachable started_registry
   \<and> map fst (handlers started_registry) = [''data:encrypt'', ''data:decrypt'', ''audit:log'']
   \<and> map fst (metadata started_registry) = [''data:encrypt'', ''data:decrypt'', ''audit:log'']
   \<and> (get_handler started_registry ''audit:log'' \<noteq> None)
       = (''audit:log'' \<in> fst ` set (list_capabilities started_registry))
   \<and> (get_handler started_registry ''nope:nope'' \<noteq> None)
       = (''nope:nope'' \<in> fst ` set (list_capabilities started_registry))
   \<and> snd (capabilities_endpoint started_registry) = 3
   \<and> length (list_capabilities started_registry) = 3"
proof -
  have r: "registry_reachable started_registry"
    unfolding started_registry_def
    by (rule startup_register_reachable) (rule reachable_init)
  have k: "map fst (handlers started_registry) = [''data:encrypt'', ''data:decrypt'', ''audit:log'']"
    by (simp add: run_defs)
  have n: "length (list_capabilities started_registry) = 3"
    by (simp add: run_defs list_capabilities_def)
  from registry_maps_share_keys [OF r, of "''audit:log''"]
       registry_maps_share_keys [OF r, of "''nope:nope''"] r k n
  show ?thesis
    by simp
qed

end
